theory Spec2Isabelle
  imports Main "HOL-Library.Sublist"
begin

section \<open>JavaScript strings\<close>

text \<open>
  The tool (\<^verbatim>\<open>src/app.mjs\<close>) exists in two variants: the base variant (lines 1-227,
  one \<^verbatim>\<open>iso\<close> folder, bridged networking probed during set-up) and the extended variant
  (lines 228-504, \<^verbatim>\<open>installerImages\<close> folder, NAT or bridged chosen by the operator).
  Functions of the extended variant keep their source names; a function of the base
  variant that shares its name with one of the extended variant carries the suffix
  \<^verbatim>\<open>_base\<close>.

  A JavaScript string is modelled as a \<^typ>\<open>string\<close>: one \<^typ>\<open>char\<close> per code unit, for code
  units below 256. In that range the characters matched by \<^verbatim>\<open>\s\<close> and removed by
  \<^verbatim>\<open>trim()\<close> are TAB, LF, VT, FF, CR, SPACE and NBSP; the line terminators, which
  \<^verbatim>\<open>.\<close> does not match, are LF and CR.
\<close>

definition isWhiteSpace :: "char \<Rightarrow> bool" where
  "isWhiteSpace c = (of_char c \<in> {9, 10, 11, 12, 13, 32, 160 :: nat})"

definition isLineTerminator :: "char \<Rightarrow> bool" where
  "isLineTerminator c = (of_char c \<in> {10, 13 :: nat})"

definition trimStart :: "string \<Rightarrow> string" where
  "trimStart s = dropWhile isWhiteSpace s"

definition trimEnd :: "string \<Rightarrow> string" where
  "trimEnd s = rev (dropWhile isWhiteSpace (rev s))"

definition trim :: "string \<Rightarrow> string" where
  "trim s = trimEnd (trimStart s)"

definition startsWith :: "string \<Rightarrow> string \<Rightarrow> bool" where
  "startsWith s p = (take (length p) s = p)"

definition endsWith :: "string \<Rightarrow> string \<Rightarrow> bool" where
  "endsWith s x = (length x \<le> length s \<and> drop (length s - length x) s = x)"

text \<open>\<^verbatim>\<open>s.includes(x)\<close>: \<^verbatim>\<open>x\<close> occurs in \<^verbatim>\<open>s\<close> as a contiguous run of characters.\<close>

fun str_includes :: "string \<Rightarrow> string \<Rightarrow> bool" where
  "str_includes [] x = (x = [])"
| "str_includes (c # cs) x = (startsWith (c # cs) x \<or> str_includes cs x)"

text \<open>\<^verbatim>\<open>s.split(sep)\<close> for a separator of one character; never the empty list.\<close>

fun str_split :: "char \<Rightarrow> string \<Rightarrow> string list" where
  "str_split sep [] = [[]]"
| "str_split sep (c # cs) =
     (if c = sep then [] # str_split sep cs
      else (case str_split sep cs of [] \<Rightarrow> [[c]] | piece # pieces \<Rightarrow> (c # piece) # pieces))"

section \<open>JavaScript numbers\<close>

definition isDigit :: "char \<Rightarrow> bool" where
  "isDigit c = (48 \<le> (of_char c :: nat) \<and> (of_char c :: nat) \<le> 57)"

text \<open>The value of a digit in radix up to 36; 36 for a character that is no digit.\<close>

definition digitOf :: "char \<Rightarrow> nat" where
  "digitOf c =
     (let n = (of_char c :: nat)
      in if 48 \<le> n \<and> n \<le> 57 then n - 48
         else if 97 \<le> n \<and> n \<le> 122 then n - 87
         else if 65 \<le> n \<and> n \<le> 90 then n - 55
         else 36)"

definition radixValue :: "nat \<Rightarrow> string \<Rightarrow> nat" where
  "radixValue r ds = foldl (\<lambda>acc c. r * acc + digitOf c) 0 ds"

definition decimalValue :: "string \<Rightarrow> nat" where
  "decimalValue ds = radixValue 10 ds"

text \<open>
  The result of converting a string to a number. \<open>Finite neg m e\<close> stands for the
  literal's mathematical value \<open>\<plusminus> m \<sqdot> 10\<^sup>e\<close>, which JavaScript then rounds to the
  nearest double.
\<close>

datatype jsnumber = NaN | PosInfinity | NegInfinity | Finite bool nat int

text \<open>\<^verbatim>\<open>0x\<close>, \<^verbatim>\<open>0o\<close> and \<^verbatim>\<open>0b\<close> literals: no sign, at least one digit.\<close>

definition nonDecimalLiteral :: "string \<Rightarrow> nat option" where
  "nonDecimalLiteral s =
     (case s of
        z # x # ds \<Rightarrow>
          (let r = (if x = CHR ''x'' \<or> x = CHR ''X'' then 16
                    else if x = CHR ''o'' \<or> x = CHR ''O'' then 8
                    else if x = CHR ''b'' \<or> x = CHR ''B'' then 2
                    else (0::nat))
           in if z = CHR ''0'' \<and> r \<noteq> 0 \<and> ds \<noteq> [] \<and> list_all (\<lambda>c. digitOf c < r) ds
              then Some (radixValue r ds) else None)
      | _ \<Rightarrow> None)"

text \<open>The rest of a decimal literal after its digits: nothing, or an exponent part.\<close>

definition exponentPart :: "string \<Rightarrow> int option" where
  "exponentPart s =
     (case s of
        [] \<Rightarrow> Some 0
      | c # r \<Rightarrow>
          if c = CHR ''e'' \<or> c = CHR ''E'' then
            (let neg = (r \<noteq> [] \<and> hd r = CHR ''-'');
                 ds = (if r \<noteq> [] \<and> (hd r = CHR ''-'' \<or> hd r = CHR ''+'') then tl r else r)
             in if ds \<noteq> [] \<and> list_all isDigit ds
                then Some (if neg then - int (decimalValue ds) else int (decimalValue ds))
                else None)
          else None)"

text \<open>
  \<^verbatim>\<open>digits [. digits] [exponent]\<close> or \<^verbatim>\<open>. digits [exponent]\<close>, up to the end of the
  string; the result is the pair of mantissa and decimal exponent.
\<close>

definition unsignedDecimalLiteral :: "string \<Rightarrow> (nat \<times> int) option" where
  "unsignedDecimalLiteral s =
     (let ip = takeWhile isDigit s;
          r1 = dropWhile isDigit s;
          hasDot = (r1 \<noteq> [] \<and> hd r1 = CHR ''.'');
          fp = (if hasDot then takeWhile isDigit (tl r1) else []);
          r2 = (if hasDot then dropWhile isDigit (tl r1) else r1)
      in if ip = [] \<and> fp = [] then None
         else (case exponentPart r2 of
                 None \<Rightarrow> None
               | Some ex \<Rightarrow> Some (decimalValue (ip @ fp), ex - int (length fp))))"

definition strDecimalLiteral :: "string \<Rightarrow> jsnumber option" where
  "strDecimalLiteral s =
     (let neg = (s \<noteq> [] \<and> hd s = CHR ''-'');
          r = (if s \<noteq> [] \<and> (hd s = CHR ''-'' \<or> hd s = CHR ''+'') then tl s else s)
      in if r = ''Infinity'' then Some (if neg then NegInfinity else PosInfinity)
         else (case unsignedDecimalLiteral r of
                 None \<Rightarrow> None
               | Some (m, e) \<Rightarrow> Some (Finite neg m e)))"

text \<open>
  The conversion applied by \<^verbatim>\<open>isNaN(input)\<close> and by \<^verbatim>\<open>input > 0\<close> to a string
  operand: surrounding white space is dropped, the empty string is zero, anything that
  is not a numeric literal is \<^verbatim>\<open>NaN\<close>.
\<close>

definition toNumber :: "string \<Rightarrow> jsnumber" where
  "toNumber s =
     (let t = trim s
      in if t = [] then Finite False 0 0
         else (case nonDecimalLiteral t of
                 Some n \<Rightarrow> Finite False n 0
               | None \<Rightarrow> (case strDecimalLiteral t of Some v \<Rightarrow> v | None \<Rightarrow> NaN)))"

definition isNaN :: "jsnumber \<Rightarrow> bool" where
  "isNaN v = (v = NaN)"

text \<open>
  \<^verbatim>\<open>v > 0\<close>. A literal's value is compared after rounding to a double: a positive
  value rounds to a positive double exactly when it exceeds \<open>2\<^sup>-\<^sup>1\<^sup>0\<^sup>7\<^sup>5\<close>, half of the
  smallest positive double (a tie goes to zero), and every larger value rounds to a
  positive double or to \<^verbatim>\<open>Infinity\<close>.
\<close>

fun greaterThanZero :: "jsnumber \<Rightarrow> bool" where
  "greaterThanZero NaN = False"
| "greaterThanZero PosInfinity = True"
| "greaterThanZero NegInfinity = False"
| "greaterThanZero (Finite neg m e) =
     (\<not> neg \<and> (if 0 \<le> e then 0 < m else 10 ^ nat (- e) < m * 2 ^ 1075))"

text \<open>
  \<^verbatim>\<open>parseInt(s, 10)\<close>: leading white space and one sign are skipped, then the longest
  run of decimal digits is read; \<open>None\<close> is \<^verbatim>\<open>NaN\<close> (no digit there). The result is
  the mathematical integer, which is the JavaScript number itself below \<open>2\<^sup>5\<^sup>3\<close>.
\<close>

definition parseInt :: "string \<Rightarrow> int option" where
  "parseInt s =
     (let t = trimStart s;
          neg = (t \<noteq> [] \<and> hd t = CHR ''-'');
          r = (if t \<noteq> [] \<and> (hd t = CHR ''-'' \<or> hd t = CHR ''+'') then tl t else t);
          z = takeWhile isDigit r
      in if z = [] then None
         else Some (if neg then - int (decimalValue z) else int (decimalValue z)))"

text \<open>Rendering of a number in a template literal.\<close>

fun toStringNat :: "nat \<Rightarrow> string" where
  "toStringNat n =
     (if n < 10 then [''0123456789'' ! n]
      else toStringNat (n div 10) @ [''0123456789'' ! (n mod 10)])"

declare toStringNat.simps [simp del]

definition toStringNumber :: "int option \<Rightarrow> string" where
  "toStringNumber v =
     (case v of
        None \<Rightarrow> ''NaN''
      | Some i \<Rightarrow> if i < 0 then CHR ''-'' # toStringNat (nat (- i)) else toStringNat (nat i))"

section \<open>The world, the operator and the effects of a run\<close>

text \<open>
  What the program reads from its environment: the file system, the external commands
  (for each command line its output, or \<open>None\<close> when \<^verbatim>\<open>execSync\<close> throws because the
  command failed), the working and home directories, the clock, and \<^verbatim>\<open>path.join\<close>.
  The environment answers a question the same way throughout one run; no run asks for
  the same command twice.
\<close>

record date =
  getFullYear :: nat
  getMonth :: nat
  getDate :: nat
  getHours :: nat
  getMinutes :: nat
  getSeconds :: nat

record world =
  existsSync :: "string \<Rightarrow> bool"
  readdirSync :: "string \<Rightarrow> string list"
  shell :: "string \<Rightarrow> string option"
  join :: "string list \<Rightarrow> string"
  cwd :: string
  homedir :: string
  now :: date

text \<open>
  What the operator does at each prompt, in order: the lines typed at a text prompt
  (the empty line accepts the default), the positions picked at a list prompt. A prompt
  that is left with nothing to read was interrupted by the operator.
\<close>

record operator =
  nameTyped :: "string list"
  imageChosen :: "nat list"
  sizeTyped :: "string list"
  folderTyped :: "string list"
  networkChosen :: "nat list"
  adapterChosen :: "nat list"

datatype jserror = ExitPromptError | ExecError string | TypeError

fun errorName :: "jserror \<Rightarrow> string" where
  "errorName ExitPromptError = ''ExitPromptError''"
| "errorName (ExecError cmd) = ''Error''"
| "errorName TypeError = ''TypeError''"

datatype halt = ProcessExit nat | Thrown jserror

datatype logline = LogInfo string | LogStep string | LogSuccess string | LogError string

text \<open>
  What a run does to the outside: the command lines handed to \<^verbatim>\<open>execSync\<close> and the
  lines logged, both oldest first.
\<close>

record effects =
  issued :: "string list"
  console :: "logline list"

type_synonym 'a action = "effects \<Rightarrow> (halt + 'a) \<times> effects"

definition return :: "'a \<Rightarrow> 'a action" where
  "return x e = (Inr x, e)"

definition andThen :: "'a action \<Rightarrow> ('a \<Rightarrow> 'b action) \<Rightarrow> 'b action" where
  "andThen m f e = (case m e of (Inl h, e') \<Rightarrow> (Inl h, e') | (Inr x, e') \<Rightarrow> f x e')"

definition thenDo :: "'a action \<Rightarrow> 'b action \<Rightarrow> 'b action" where
  "thenDo m k = andThen m (\<lambda>_. k)"

definition lift :: "halt + 'a \<Rightarrow> 'a action" where
  "lift r e = (r, e)"

definition processExit :: "nat \<Rightarrow> 'a action" where
  "processExit code e = (Inl (ProcessExit code), e)"

definition throw :: "jserror \<Rightarrow> 'a action" where
  "throw err e = (Inl (Thrown err), e)"

definition tryCatch :: "'a action \<Rightarrow> (jserror \<Rightarrow> 'a action) \<Rightarrow> 'a action" where
  "tryCatch m handler e =
     (case m e of (Inl (Thrown err), e') \<Rightarrow> handler err e' | other \<Rightarrow> other)"

definition logInfo :: "string \<Rightarrow> unit action" where
  "logInfo msg e = (Inr (), e\<lparr>console := console e @ [LogInfo msg]\<rparr>)"

definition logStep :: "string \<Rightarrow> unit action" where
  "logStep msg e = (Inr (), e\<lparr>console := console e @ [LogStep msg]\<rparr>)"

definition logSuccess :: "string \<Rightarrow> unit action" where
  "logSuccess msg e = (Inr (), e\<lparr>console := console e @ [LogSuccess msg]\<rparr>)"

definition logError :: "string \<Rightarrow> unit action" where
  "logError msg e = (Inr (), e\<lparr>console := console e @ [LogError msg]\<rparr>)"

definition execSync :: "world \<Rightarrow> string \<Rightarrow> string action" where
  "execSync w cmd e =
     (case shell w cmd of
        None \<Rightarrow> (Inl (Thrown (ExecError cmd)), e\<lparr>issued := issued e @ [cmd]\<rparr>)
      | Some output \<Rightarrow> (Inr output, e\<lparr>issued := issued e @ [cmd]\<rparr>))"

text \<open>\<^verbatim>\<open>path.join\<close> throws a \<^verbatim>\<open>TypeError\<close> when an argument is not a string.\<close>

definition pathJoin :: "world \<Rightarrow> string option list \<Rightarrow> string action" where
  "pathJoin w parts =
     (if list_all (\<lambda>p. p \<noteq> None) parts then return (join w (map the parts))
      else throw TypeError)"

text \<open>A value interpolated into a template literal; \<^verbatim>\<open>null\<close> reads \<^verbatim>\<open>null\<close>.\<close>

definition render :: "string option \<Rightarrow> string" where
  "render v = (case v of None \<Rightarrow> ''null'' | Some s \<Rightarrow> s)"

subsection \<open>The prompts\<close>

text \<open>
  The prompt library, by its contract. A text prompt resolves to the line typed, or to
  its default when the line is empty, once the \<^verbatim>\<open>validate\<close> callback returns
  \<^verbatim>\<open>true\<close> for it; until then it asks again. A list prompt resolves to the value of
  the choice picked. An interrupted prompt rejects with an \<^verbatim>\<open>ExitPromptError\<close>.
\<close>

datatype validation = Valid | Invalid string

fun input :: "string \<Rightarrow> (string \<Rightarrow> validation) \<Rightarrow> string list \<Rightarrow> halt + string" where
  "input dflt validate [] = Inl (Thrown ExitPromptError)"
| "input dflt validate (typed # later) =
     (let answer = (if typed = [] then dflt else typed)
      in if validate answer = Valid then Inr answer else input dflt validate later)"

text \<open>A text prompt without validation whose default may be \<^verbatim>\<open>null\<close>.\<close>

fun inputNullable :: "string option \<Rightarrow> string list \<Rightarrow> halt + string option" where
  "inputNullable dflt [] = Inl (Thrown ExitPromptError)"
| "inputNullable dflt (typed # later) = Inr (if typed = [] then dflt else Some typed)"

fun rawlist :: "'a list \<Rightarrow> nat list \<Rightarrow> halt + 'a" where
  "rawlist choices [] = Inl (Thrown ExitPromptError)"
| "rawlist choices (i # later) =
     (if i < length choices then Inr (choices ! i) else rawlist choices later)"

section \<open>The program\<close>

subsection \<open>Settings and probes (both variants)\<close>

definition backslash :: string where
  "backslash = [CHR 0x5C]"

definition virtualBoxPath :: string where
  "virtualBoxPath =
     ''C:'' @ backslash @ ''Program Files'' @ backslash @ ''Oracle'' @ backslash @ ''VirtualBox''"

definition isoFolder :: "world \<Rightarrow> string" where
  "isoFolder w = join w [cwd w, ''iso'']"

definition installerImagesFolder :: "world \<Rightarrow> string" where
  "installerImagesFolder w = join w [cwd w, ''installerImages'']"

text \<open>
  The default disk size is the number 10; the validator and \<^verbatim>\<open>parseInt\<close>, the only
  readers of the answer, read it as they read the string \<^verbatim>\<open>10\<close>.
\<close>

definition hddSizeGBDefault :: string where
  "hddSizeGBDefault = ''10''"

definition systempropertiesCommand :: string where
  \<open>systempropertiesCommand =
     ''"'' @ virtualBoxPath @ backslash @ ''VBoxManage.exe" list systemproperties''\<close>

text \<open>
  \<^verbatim>\<open>output.match(/Default machine folder:\s+(.*)/)\<close>, first group of the leftmost match:
  after the label, the white space is skipped (there must be some) and the rest of the
  line is captured.
\<close>

definition matchHere :: "string \<Rightarrow> string option" where
  "matchHere s =
     (let r = drop (length ''Default machine folder:'') s
      in if startsWith s ''Default machine folder:'' \<and> r \<noteq> [] \<and> isWhiteSpace (hd r)
         then Some (takeWhile (\<lambda>c. \<not> isLineTerminator c) (dropWhile isWhiteSpace r))
         else None)"

fun matchDefaultMachineFolder :: "string \<Rightarrow> string option" where
  "matchDefaultMachineFolder [] = None"
| "matchDefaultMachineFolder (c # cs) =
     (case matchHere (c # cs) of
        Some g \<Rightarrow> Some g
      | None \<Rightarrow> matchDefaultMachineFolder cs)"

definition getDefaultVMFolder :: "world \<Rightarrow> string option action" where
  "getDefaultVMFolder w =
     tryCatch
       (andThen (execSync w systempropertiesCommand) (\<lambda>output.
          return (case matchDefaultMachineFolder output of
                    Some g \<Rightarrow> Some (trim g)
                  | None \<Rightarrow> None)))
       (\<lambda>error.
          thenDo (logError ''Could not detect default VirtualBox VM folder. Falling back.'')
            (return (Some (join w [homedir w, ''VirtualBox VMs'']))))"

definition pad :: "nat \<Rightarrow> string" where
  "pad n = (let s = toStringNat n in if length s < 2 then CHR ''0'' # s else s)"

definition getTimestamp :: "world \<Rightarrow> string" where
  "getTimestamp w =
     (let year = toStringNat (getFullYear (now w));
          month = pad (getMonth (now w) + 1);
          day = pad (getDate (now w));
          hour = pad (getHours (now w));
          minute = pad (getMinutes (now w));
          second = pad (getSeconds (now w))
      in year @ month @ day @ ''_'' @ hour @ minute @ second)"

definition checkVBoxManage :: "world \<Rightarrow> string action" where
  "checkVBoxManage w =
     (let vboxManage = join w [virtualBoxPath, ''VBoxManage.exe'']
      in if \<not> existsSync w vboxManage then
           thenDo (logError (''Failed: VBoxManage not found at: '' @ virtualBoxPath))
          (thenDo (logError ''Please install VirtualBox or provide the correct path.'')
          (processExit 1))
         else return vboxManage)"

text \<open>The path that \<^verbatim>\<open>checkVBoxManage\<close> looks for and returns.\<close>

definition vboxManagePath :: "world \<Rightarrow> string" where
  "vboxManagePath w = join w [virtualBoxPath, ''VBoxManage.exe'']"

definition validateHddSize :: "string \<Rightarrow> validation" where
  "validateHddSize typed =
     (if \<not> isNaN (toNumber typed) \<and> greaterThanZero (toNumber typed) then Valid
      else Invalid ''Please enter a valid number greater than 0.'')"

subsection \<open>Image discovery\<close>

text \<open>Base variant, lines 71-86.\<close>

definition getAvailableISOs :: "world \<Rightarrow> string list action" where
  \<open>getAvailableISOs w =
     (if \<not> existsSync w (isoFolder w) then
        thenDo (logError
          ''\'iso\' folder not found. Please create a folder named \'iso\' and place your ISOs there.'')
          (processExit 1)
      else
        (let isoFiles = filter (\<lambda>file. endsWith file ''.iso'') (readdirSync w (isoFolder w))
         in if length isoFiles = 0 then
              thenDo (logError
                ''No ISO files found in the \'iso\' folder. Please add some ISOs.'')
                (processExit 1)
            else return isoFiles))\<close>

text \<open>Extended variant, lines 315-332.\<close>

definition getAvailableInstallerImages :: "world \<Rightarrow> string list action" where
  \<open>getAvailableInstallerImages w =
     (if \<not> existsSync w (installerImagesFolder w) then
        thenDo (logError
          (''\'installerImages\' folder not found. Please create a folder named ''
           @ ''\'installerImages\' and place your ISOs and IMG files there.''))
          (processExit 1)
      else
        (let imgFiles =
               filter (\<lambda>file. endsWith file ''.iso'' \<or> endsWith file ''.img'')
                 (readdirSync w (installerImagesFolder w))
         in if length imgFiles = 0 then
              thenDo (logError
                (''No image files found in the \'installerImages\' folder. ''
                 @ ''Please add some ISOs or IMG files.''))
                (processExit 1)
            else return imgFiles))\<close>

subsection \<open>Bridged adapters\<close>

definition listBridgedifsCommand :: "string \<Rightarrow> string" where
  \<open>listBridgedifsCommand vboxManage = ''"'' @ vboxManage @ ''" list bridgedifs''\<close>

text \<open>
  \<^verbatim>\<open>line.split(":")[1]\<close>: the piece after the first colon, \<open>None\<close> (\<^verbatim>\<open>undefined\<close>)
  when the line has no colon.
\<close>

definition afterFirstColon :: "string \<Rightarrow> string option" where
  "afterFirstColon line =
     (case str_split CHR '':'' line of _ # piece # _ \<Rightarrow> Some piece | _ \<Rightarrow> None)"

text \<open>
  Extended variant, lines 298-312. A line that starts with \<^verbatim>\<open>Name:\<close> has a piece
  after its first colon (\<open>afterFirstColon_Name\<close> below), so the second branch of the
  \<open>case\<close> is never taken.
\<close>

definition adapterNames :: "string \<Rightarrow> string list" where
  "adapterNames output =
     filter (\<lambda>name. name \<noteq> [])
       (map (\<lambda>line. case afterFirstColon line of Some piece \<Rightarrow> trim piece | None \<Rightarrow> [])
         (filter (\<lambda>line. startsWith line ''Name:'')
           (map trim (str_split CHR 0x0A output))))"

definition listBridgedAdapters :: "world \<Rightarrow> string \<Rightarrow> string list action" where
  "listBridgedAdapters w vboxManage =
     tryCatch
       (andThen (execSync w (listBridgedifsCommand vboxManage)) (\<lambda>output.
          return (adapterNames output)))
       (\<lambda>error. return [])"

text \<open>
  Base variant, line 165:
  \<^verbatim>\<open>bridgedAdapters.split("\n")[0].split(":")[1]?.trim()\<close>.
\<close>

definition firstAdapterOf :: "string \<Rightarrow> string option" where
  "firstAdapterOf bridgedAdapters =
     map_option trim (afterFirstColon (hd (str_split CHR 0x0A bridgedAdapters)))"

text \<open>\<^verbatim>\<open>!x\<close> for a string or \<^verbatim>\<open>null\<close>/\<^verbatim>\<open>undefined\<close>.\<close>

definition falsy :: "string option \<Rightarrow> bool" where
  "falsy v = (v = None \<or> v = Some [])"

subsection \<open>Collecting the request\<close>

record request =
  virtualMachineName :: string
  imgSelection :: string
  hddSizeGB :: "int option"
  vmFolder :: "string option"

record request_ext = request +
  networkType :: string
  bridgedAdapter :: "string option"

text \<open>Base variant, lines 89-126 (there the second field is called \<^verbatim>\<open>isoSelection\<close>).\<close>

definition promptUser_base :: "world \<Rightarrow> operator \<Rightarrow> request action" where
  "promptUser_base w op =
     andThen (getAvailableISOs w) (\<lambda>availableISOs.
     andThen (lift (input (''TwinCAT_BSD_'' @ getTimestamp w) (\<lambda>_. Valid) (nameTyped op)))
       (\<lambda>name.
     andThen (lift (rawlist availableISOs (imageChosen op))) (\<lambda>isoSelection.
     andThen (lift (input hddSizeGBDefault validateHddSize (sizeTyped op))) (\<lambda>size.
     andThen (getDefaultVMFolder w) (\<lambda>defaultFolder.
     andThen (lift (inputNullable defaultFolder (folderTyped op))) (\<lambda>folder.
     return \<lparr>virtualMachineName = name, imgSelection = isoSelection,
             hddSizeGB = parseInt size, vmFolder = folder\<rparr>))))))"

text \<open>
  Extended variant, lines 335-397. The network prompts (lines 366-387) come first, as a
  step of their own that yields the network mode and the adapter.
\<close>

definition chooseNetwork :: "world \<Rightarrow> operator \<Rightarrow> (string \<times> string option) action" where
  "chooseNetwork w op =
     andThen (lift (rawlist [''nat'', ''bridged''] (networkChosen op))) (\<lambda>chosen.
       if chosen = ''bridged'' then
         andThen (checkVBoxManage w) (\<lambda>vboxManage.
         andThen (listBridgedAdapters w vboxManage) (\<lambda>adapters.
           if length adapters = 0 then
             thenDo (logInfo ''No bridged adapters found. Using NAT.'')
               (return (''nat'', None))
           else
             andThen (lift (rawlist adapters (adapterChosen op))) (\<lambda>adapter.
               return (chosen, Some adapter))))
       else return (chosen, None))"

definition promptUser :: "world \<Rightarrow> operator \<Rightarrow> request_ext action" where
  "promptUser w op =
     andThen (getAvailableInstallerImages w) (\<lambda>availableInstallerImages.
     andThen (lift (input (''TwinCAT_VM_'' @ getTimestamp w) (\<lambda>_. Valid) (nameTyped op)))
       (\<lambda>name.
     andThen (lift (rawlist availableInstallerImages (imageChosen op))) (\<lambda>selection.
     andThen (lift (input hddSizeGBDefault validateHddSize (sizeTyped op))) (\<lambda>size.
     andThen (getDefaultVMFolder w) (\<lambda>defaultFolder.
     andThen (lift (inputNullable defaultFolder (folderTyped op))) (\<lambda>folder.
     andThen (chooseNetwork w op) (\<lambda>(network, adapter).
     return \<lparr>virtualMachineName = name, imgSelection = selection,
             hddSizeGB = parseInt size, vmFolder = folder,
             networkType = network, bridgedAdapter = adapter\<rparr>)))))))"

subsection \<open>The command lines\<close>

definition listVmsCommand :: "string \<Rightarrow> string" where
  \<open>listVmsCommand vboxManage = ''"'' @ vboxManage @ ''" list vms''\<close>

definition createvmCommand :: "string \<Rightarrow> string \<Rightarrow> string option \<Rightarrow> string" where
  \<open>createvmCommand vboxManage name workingDirectory =
     ''"'' @ vboxManage @ ''" createvm --name '' @ name @ '' --basefolder "''
     @ render workingDirectory @ ''" --ostype FreeBSD_64 --register''\<close>

definition modifyvmCommand :: "string \<Rightarrow> string \<Rightarrow> string" where
  \<open>modifyvmCommand vboxManage name =
     ''"'' @ vboxManage @ ''" modifyvm "'' @ name
     @ ''" --memory 1024 --vram 128 --acpi on --hpet on --graphicscontroller vmsvga --firmware efi64''\<close>

definition bridgedCommand :: "string \<Rightarrow> string \<Rightarrow> string \<Rightarrow> string" where
  \<open>bridgedCommand vboxManage name adapter =
     ''"'' @ vboxManage @ ''" modifyvm "'' @ name @ ''" --nic1 bridged --bridgeadapter1 "''
     @ adapter @ ''"''\<close>

definition natCommand :: "string \<Rightarrow> string \<Rightarrow> string" where
  \<open>natCommand vboxManage name = ''"'' @ vboxManage @ ''" modifyvm "'' @ name @ ''" --nic1 nat''\<close>

definition convertfromrawCommand :: "string \<Rightarrow> string \<Rightarrow> string \<Rightarrow> string" where
  \<open>convertfromrawCommand vboxManage imgPath installerVdi =
     ''"'' @ vboxManage @ ''" convertfromraw --format VDI '' @ imgPath @ '' "'' @ installerVdi
     @ ''"''\<close>

definition storagectlCommand :: "string \<Rightarrow> string \<Rightarrow> string" where
  \<open>storagectlCommand vboxManage name =
     ''"'' @ vboxManage @ ''" storagectl "'' @ name
     @ ''" --name SATA --add sata --controller IntelAhci --hostiocache on --bootable on''\<close>

definition storageattachCommand :: "string \<Rightarrow> string \<Rightarrow> string \<Rightarrow> string \<Rightarrow> string" where
  \<open>storageattachCommand vboxManage name port medium =
     ''"'' @ vboxManage @ ''" storageattach "'' @ name @ ''" --storagectl "SATA" --port '' @ port
     @ '' --device 0 --type hdd --medium "'' @ medium @ ''"''\<close>

definition createmediumCommand :: "string \<Rightarrow> string \<Rightarrow> int option \<Rightarrow> string" where
  \<open>createmediumCommand vboxManage runtimeVhd hddSizeMB =
     ''"'' @ vboxManage @ ''" createmedium --filename "'' @ runtimeVhd @ ''" --size ''
     @ toStringNumber hddSizeMB @ '' --format VHD''\<close>

definition startCommand :: "string \<Rightarrow> string" where
  \<open>startCommand vboxFile = ''start "" "'' @ vboxFile @ ''"''\<close>

text \<open>\<^verbatim>\<open>hddSizeGB * 1024\<close>; \<^verbatim>\<open>NaN\<close> stays \<^verbatim>\<open>NaN\<close>.\<close>

definition toMegabytes :: "int option \<Rightarrow> int option" where
  "toMegabytes gigabytes = map_option (\<lambda>gb. gb * 1024) gigabytes"

subsection \<open>Setting up the machine\<close>

text \<open>
  The steps that both variants take once the network adapter is dealt with (lines
  178-216 and 455-493); they differ in the announcement of the conversion only.
\<close>

definition installAndStart ::
    "world \<Rightarrow> string \<Rightarrow> string \<Rightarrow> string \<Rightarrow> 'a request_scheme \<Rightarrow> unit action" where
  \<open>installAndStart w announcement vboxManage imgPath req =
     thenDo (logStep announcement)
    (andThen (pathJoin w [vmFolder req, Some (virtualMachineName req),
                          Some ''TcBSD_installer.vdi'']) (\<lambda>installerVdi.
     thenDo (execSync w (convertfromrawCommand vboxManage imgPath installerVdi))
    (andThen (pathJoin w [vmFolder req, Some (virtualMachineName req), Some ''TcBSD.vhd''])
       (\<lambda>runtimeVhd.
     thenDo (execSync w (storagectlCommand vboxManage (virtualMachineName req)))
    (thenDo (execSync w (storageattachCommand vboxManage (virtualMachineName req) ''1''
                          installerVdi))
    (thenDo (logStep (''Creating runtime HDD: '' @ toStringNumber (hddSizeGB req) @ ''GB''))
    (thenDo (execSync w (createmediumCommand vboxManage runtimeVhd
                          (toMegabytes (hddSizeGB req))))
    (thenDo (execSync w (storageattachCommand vboxManage (virtualMachineName req) ''0''
                          runtimeVhd))
    (andThen (pathJoin w [vmFolder req, Some (virtualMachineName req)]) (\<lambda>vmDir.
     andThen (pathJoin w [Some vmDir, Some (virtualMachineName req @ ''.vbox'')]) (\<lambda>vboxFile.
     thenDo (logStep ''Starting Virtual Machine...'')
    (thenDo (execSync w (startCommand vboxFile))
    (logSuccess (''Virtual Machine '' @ [CHR 0x27] @ virtualMachineName req @ ''\' setup complete.''))
     ))))))))))))\<close>

text \<open>
  The checks that both variants make before the first provisioning command (lines
  132-150 and 409-427), and the two commands that create the machine (lines 152-159 and
  430-436). The result is the path of the management tool and of the image.
\<close>

definition checkAndCreate ::
    "world \<Rightarrow> string \<Rightarrow> string \<Rightarrow> 'a request_scheme \<Rightarrow> (string \<times> string) action" where
  \<open>checkAndCreate w folder missing req =
     andThen (checkVBoxManage w) (\<lambda>vboxManage.
     andThen (return (join w [folder, imgSelection req])) (\<lambda>imgPath.
     thenDo (if \<not> existsSync w imgPath then
               thenDo (logError (missing @ imgSelection req)) (processExit 1)
             else return ())
    (andThen (execSync w (listVmsCommand vboxManage)) (\<lambda>existingVMs.
     thenDo (if str_includes existingVMs (''"'' @ virtualMachineName req @ ''"'') then
               thenDo (logInfo (''Virtual Machine '' @ [CHR 0x27] @ virtualMachineName req
                                @ ''\' already exists.''))
              (thenDo (logInfo ''To recreate, manually delete it from VirtualBox first.'')
              (processExit 1))
             else return ())
    (thenDo (logStep (''Creating VM: '' @ virtualMachineName req))
    (thenDo (execSync w (createvmCommand vboxManage (virtualMachineName req) (vmFolder req)))
    (thenDo (execSync w (modifyvmCommand vboxManage (virtualMachineName req)))
    (return (vboxManage, imgPath)))))))))\<close>

text \<open>Base variant, lines 129-217.\<close>

definition setupVM_base :: "world \<Rightarrow> operator \<Rightarrow> unit action" where
  "setupVM_base w op =
     andThen (promptUser_base w op) (\<lambda>req.
     andThen (checkAndCreate w (isoFolder w) ''Failed: Missing TCBSD image: '' req)
       (\<lambda>(vboxManage, isoPath).
     andThen (execSync w (listBridgedifsCommand vboxManage)) (\<lambda>bridgedAdapters.
     andThen (return (firstAdapterOf bridgedAdapters)) (\<lambda>firstAdapter.
     thenDo (if falsy firstAdapter then
               logInfo ''No bridged adapters found. Network adapter will not be configured.''
             else
               thenDo (logInfo (''Setting bridged network adapter to: '' @ render firstAdapter))
                 (thenDo (execSync w (bridgedCommand vboxManage (virtualMachineName req)
                                       (render firstAdapter)))
                   (return ())))
    (installAndStart w ''Converting ISO to installer VDI...'' vboxManage isoPath req)))))"

text \<open>Extended variant, lines 400-494.\<close>

definition setupVM :: "world \<Rightarrow> operator \<Rightarrow> unit action" where
  "setupVM w op =
     andThen (promptUser w op) (\<lambda>req.
     andThen (checkAndCreate w (installerImagesFolder w) ''Failed: Missing TC image: '' req)
       (\<lambda>(vboxManage, imgPath).
     thenDo (if networkType req = ''bridged'' then
               (if falsy (bridgedAdapter req) then
                  logInfo ''No bridged adapters found. Network adapter will not be configured.''
                else
                  thenDo (logInfo (''Setting bridged network adapter to: ''
                                   @ render (bridgedAdapter req)))
                    (thenDo (execSync w (bridgedCommand vboxManage (virtualMachineName req)
                                          (render (bridgedAdapter req))))
                      (return ())))
             else
               thenDo (logInfo ''Setting network adapter to NAT'')
                 (thenDo (execSync w (natCommand vboxManage (virtualMachineName req)))
                   (return ())))
    (installAndStart w ''Converting image to installer VDI...'' vboxManage imgPath req)))"

subsection \<open>The process\<close>

text \<open>
  Lines 219-227 and 496-504. A rejection of the promise of \<^verbatim>\<open>setupVM()\<close> reaches the
  \<^verbatim>\<open>uncaughtException\<close> handler. When the handler returns, the process goes on and,
  with nothing left to do, ends with exit code 0; when the handler throws, the runtime
  prints the error and ends the process with exit code 7.
\<close>

definition uncaughtException :: "jserror \<Rightarrow> unit action" where
  "uncaughtException error =
     (if errorName error = ''ExitPromptError'' then logError ''Exiting'' else throw error)"

datatype ending = Completed | Handled | Exited nat | Crashed jserror

definition conclude :: "(halt + unit) \<times> effects \<Rightarrow> ending \<times> effects" where
  "conclude r =
     (case r of
        (Inr _, e) \<Rightarrow> (Completed, e)
      | (Inl (ProcessExit code), e) \<Rightarrow> (Exited code, e)
      | (Inl (Thrown error), e) \<Rightarrow>
          (case uncaughtException error e of
             (Inr _, e') \<Rightarrow> (Handled, e')
           | (Inl (ProcessExit code), e') \<Rightarrow> (Exited code, e')
           | (Inl (Thrown error'), e') \<Rightarrow> (Crashed error', e')))"

definition main_base :: "world \<Rightarrow> operator \<Rightarrow> ending \<times> effects" where
  "main_base w op = conclude (setupVM_base w op \<lparr>issued = [], console = []\<rparr>)"

definition main :: "world \<Rightarrow> operator \<Rightarrow> ending \<times> effects" where
  "main w op = conclude (setupVM w op \<lparr>issued = [], console = []\<rparr>)"

fun exitCode :: "ending \<Rightarrow> nat" where
  "exitCode Completed = 0"
| "exitCode Handled = 0"
| "exitCode (Exited code) = code"
| "exitCode (Crashed error) = 7"

section \<open>Command lines as their recipient reads them\<close>



section \<open>A laboratory\<close>

text \<open>
  A concrete environment and operator, on which the program is run below. The tool and
  every file are there; the interface listing is a parameter.
\<close>

definition nl :: string where
  "nl = [CHR 0x0A]"

definition backslashJoin :: "string list \<Rightarrow> string" where
  "backslashJoin parts = foldr (\<lambda>p acc. if acc = [] then p else p @ backslash @ acc) parts []"

definition labVBoxManage :: string where
  "labVBoxManage = virtualBoxPath @ backslash @ ''VBoxManage.exe''"

definition labFolder :: string where
  "labFolder = ''D:'' @ backslash @ ''VMs''"

definition labShell :: "string \<Rightarrow> string \<Rightarrow> string option" where
  \<open>labShell bridgedifs cmd =
     (if cmd = systempropertiesCommand then
        Some (''API version:                     7_1'' @ nl
              @ ''Default machine folder:          '' @ labFolder @ nl
              @ ''Logging history size:            3'' @ nl)
      else if cmd = listVmsCommand labVBoxManage then
        Some (''"Old VM" {8d1f6bd4-0000-4000-8000-000000000001}'' @ nl)
      else if cmd = listBridgedifsCommand labVBoxManage then Some bridgedifs
      else Some [])\<close>

definition labWorld :: "string \<Rightarrow> world" where
  "labWorld bridgedifs =
     \<lparr>existsSync = (\<lambda>path. True),
      readdirSync = (\<lambda>dir. [''readme.txt'', ''tcbsd.iso'', ''rtlinux.img'']),
      shell = labShell bridgedifs,
      join = backslashJoin,
      cwd = ''D:'' @ backslash @ ''tool'',
      homedir = ''C:'' @ backslash @ ''Users'' @ backslash @ ''operator'',
      now = \<lparr>getFullYear = 2025, getMonth = 6, getDate = 24,
              getHours = 13, getMinutes = 42, getSeconds = 5\<rparr>\<rparr>"

definition oneAdapter :: string where
  "oneAdapter =
     ''Name:            Intel(R) Ethernet Connection'' @ nl
     @ ''GUID:            8d1f6bd4-0000-4000-8000-000000000002'' @ nl"

text \<open>The operator accepts every default, picks the first image and bridged networking.\<close>

definition emptyListing :: string where
  "emptyListing = []"

definition acceptDefaults :: operator where
  "acceptDefaults =
     \<lparr>nameTyped = [[]], imageChosen = [0], sizeTyped = [[]], folderTyped = [[]],
      networkChosen = [1], adapterChosen = [0]\<rparr>"

text \<open>The same operator, asking for the name of a machine that is registered.\<close>

definition askForOldVM :: operator where
  "askForOldVM = acceptDefaults\<lparr>nameTyped := [''Old VM'']\<rparr>"

text \<open>The same operator, typing a fractional disk size.\<close>

definition typesFraction :: operator where
  "typesFraction = acceptDefaults\<lparr>sizeTyped := [''2.5'']\<rparr>"

text \<open>The same operator, interrupting the prompt that selects the image.\<close>

definition interruptsAtImage :: operator where
  "interruptsAtImage = acceptDefaults\<lparr>imageChosen := []\<rparr>"

text \<open>An environment in which every command succeeds and prints nothing.\<close>

definition silentWorld :: world where
  "silentWorld = (labWorld emptyListing)\<lparr>shell := (\<lambda>cmd. Some [])\<rparr>"

text \<open>An environment in which every command fails.\<close>

definition brokenWorld :: world where
  "brokenWorld = (labWorld emptyListing)\<lparr>shell := (\<lambda>cmd. None)\<rparr>"

text \<open>The files of one machine in the laboratory.\<close>

definition labFile :: "string \<Rightarrow> string \<Rightarrow> string" where
  "labFile name file = labFolder @ backslash @ name @ backslash @ file"

section \<open>Strings and numbers: facts\<close>

lemma endsWith_suffix: "endsWith s x \<longleftrightarrow> suffix x s"
proof
  assume "endsWith s x"
  then have "s = take (length s - length x) s @ x"
    by (metis append_take_drop_id endsWith_def)
  then show "suffix x s" by (metis suffixI)
next
  assume "suffix x s"
  then obtain zs where "s = zs @ x" by (auto simp: suffix_def)
  then show "endsWith s x" by (simp add: endsWith_def)
qed

lemma startsWith_prefix: "startsWith s p \<longleftrightarrow> prefix p s"
  by (metis startsWith_def prefix_def append_eq_conv_conj append_take_drop_id)

lemma str_includes_sublist: "str_includes s x \<longleftrightarrow> sublist x s"
  by (induction s) (auto simp: startsWith_prefix sublist_Cons_right)

lemma str_split_nonempty: "str_split sep s \<noteq> []"
  by (induction s) (auto split: list.splits)

lemma length_str_split_Cons:
  "c \<noteq> sep \<Longrightarrow> length (str_split sep (c # cs)) = length (str_split sep cs)"
  using str_split_nonempty[of sep cs] by (auto split: list.splits)

lemma afterFirstColon_Name:
  assumes "startsWith line ''Name:''"
  shows "afterFirstColon line \<noteq> None"
proof -
  from assms obtain r where line: "line = ''Name:'' @ r"
    unfolding startsWith_def by (metis append_take_drop_id)
  have "length (str_split CHR '':'' line) = Suc (length (str_split CHR '':'' r))"
    unfolding line by (simp add: length_str_split_Cons del: str_split.simps(2)) simp
  moreover have "0 < length (str_split CHR '':'' r)"
    using str_split_nonempty[of "CHR '':''" r] by (cases "str_split CHR '':'' r") auto
  ultimately have "2 \<le> length (str_split CHR '':'' line)" by linarith
  then show ?thesis
    unfolding afterFirstColon_def
    by (cases "str_split CHR '':'' line" rule: list.exhaust[case_product list.exhaust])
       (auto split: list.splits)
qed

lemma digit_not_white: "isDigit c \<Longrightarrow> \<not> isWhiteSpace c"
  by (auto simp: isDigit_def isWhiteSpace_def)

lemma dropWhile_self: "xs = [] \<or> \<not> P (hd xs) \<Longrightarrow> dropWhile P xs = xs"
  by (cases xs) auto


lemma trim_digits: "list_all isDigit s \<Longrightarrow> trim s = s"
proof (cases "s = []")
  case True
  then show ?thesis by (simp add: trim_def trimStart_def trimEnd_def)
next
  case False
  assume d: "list_all isDigit s"
  from False d have "isDigit (hd s)" and "isDigit (last s)"
    by (auto simp: list_all_iff)
  then have "\<not> isWhiteSpace (hd s)" and "\<not> isWhiteSpace (hd (rev s))"
    using False by (auto simp: digit_not_white hd_rev)
  then show ?thesis
    by (simp add: trim_def trimStart_def trimEnd_def dropWhile_self)
qed



lemma digit_char_facts:
  assumes "isDigit c"
  shows "c \<noteq> CHR ''-''" "c \<noteq> CHR ''+''" "c \<noteq> CHR ''.''" "c \<noteq> CHR ''x''" "c \<noteq> CHR ''X''"
    "c \<noteq> CHR ''o''" "c \<noteq> CHR ''O''" "c \<noteq> CHR ''b''" "c \<noteq> CHR ''B''" "c \<noteq> CHR ''I''"
  using assms by (auto simp: isDigit_def)

lemma nonDecimalLiteral_digit2: "isDigit x \<Longrightarrow> nonDecimalLiteral (z # x # ds) = None"
  by (simp add: nonDecimalLiteral_def digit_char_facts)


lemma nonDecimalLiteral_single: "nonDecimalLiteral [z] = None"
  by (simp add: nonDecimalLiteral_def)

lemma nonDecimalLiteral_digits: "list_all isDigit s \<Longrightarrow> nonDecimalLiteral s = None"
proof (cases s)
  case Nil
  then show ?thesis by (simp add: nonDecimalLiteral_def)
next
  case (Cons z t)
  assume d: "list_all isDigit s"
  show ?thesis
  proof (cases t)
    case Nil
    with Cons show ?thesis by (simp add: nonDecimalLiteral_single)
  next
    case (Cons x ds)
    with d \<open>s = z # t\<close> have "isDigit x" by simp
    with Cons \<open>s = z # t\<close> show ?thesis by (simp add: nonDecimalLiteral_digit2)
  qed
qed

lemma takeWhile_all_digits: "list_all isDigit s \<Longrightarrow> takeWhile isDigit s = s"
  by (induction s) auto

lemma dropWhile_all_digits: "list_all isDigit s \<Longrightarrow> dropWhile isDigit s = []"
  by (induction s) auto

lemma unsignedDecimalLiteral_digits:
  assumes "s \<noteq> []" "list_all isDigit s"
  shows "unsignedDecimalLiteral s = Some (decimalValue s, 0)"
proof -
  have tw: "takeWhile isDigit s = s" and dw: "dropWhile isDigit s = []"
    using assms(2) by (rule takeWhile_all_digits, rule dropWhile_all_digits)
  show ?thesis
    unfolding unsignedDecimalLiteral_def tw dw using assms(1)
    by (simp add: exponentPart_def)
qed


lemma strDecimalLiteral_digit:
  "isDigit c \<Longrightarrow> strDecimalLiteral (c # s) =
     (case unsignedDecimalLiteral (c # s) of None \<Rightarrow> None | Some (m, e) \<Rightarrow> Some (Finite False m e))"
  by (simp add: strDecimalLiteral_def digit_char_facts)

lemma toNumber_digits:
  assumes "s \<noteq> []" "list_all isDigit s"
  shows "toNumber s = Finite False (decimalValue s) 0"
proof -
  obtain c r where s: "s = c # r" using assms(1) by (cases s) auto
  then have c: "isDigit c" using assms(2) by simp
  show ?thesis
    using assms trim_digits[OF assms(2)] nonDecimalLiteral_digits[OF assms(2)]
      unsignedDecimalLiteral_digits[OF assms] strDecimalLiteral_digit[OF c, of r]
    by (simp add: toNumber_def s)
qed









section \<open>Runs: facts\<close>

lemma andThen_Inr:
  "andThen m f e = (Inr y, e') \<longleftrightarrow> (\<exists>x e1. m e = (Inr x, e1) \<and> f x e1 = (Inr y, e'))"
  by (auto simp: andThen_def split: prod.splits sum.splits)

lemma thenDo_Inr:
  "thenDo m k e = (Inr y, e') \<longleftrightarrow> (\<exists>x e1. m e = (Inr x, e1) \<and> k e1 = (Inr y, e'))"
  by (simp add: thenDo_def andThen_Inr)

lemma return_Inr: "return x e = (Inr y, e') \<longleftrightarrow> y = x \<and> e' = e"
  by (auto simp: return_def)

lemma processExit_Inr: "processExit c e = (Inr y, e') \<longleftrightarrow> False"
  by (simp add: processExit_def)

lemma throw_Inr: "throw c e = (Inr y, e') \<longleftrightarrow> False"
  by (simp add: throw_def)

lemma execSync_Inr:
  "execSync w c e = (Inr out, e') \<longleftrightarrow>
     shell w c = Some out \<and> e' = e\<lparr>issued := issued e @ [c]\<rparr>"
  by (auto simp: execSync_def split: option.splits)

lemma lift_Inr: "lift r e = (Inr y, e') \<longleftrightarrow> r = Inr y \<and> e' = e"
  by (auto simp: lift_def)

lemma log_Inr:
  "logInfo m e = (Inr y, e') \<longleftrightarrow> e' = e\<lparr>console := console e @ [LogInfo m]\<rparr>"
  "logStep m e = (Inr y, e') \<longleftrightarrow> e' = e\<lparr>console := console e @ [LogStep m]\<rparr>"
  "logSuccess m e = (Inr y, e') \<longleftrightarrow> e' = e\<lparr>console := console e @ [LogSuccess m]\<rparr>"
  "logError m e = (Inr y, e') \<longleftrightarrow> e' = e\<lparr>console := console e @ [LogError m]\<rparr>"
  by (auto simp: logInfo_def logStep_def logSuccess_def logError_def)

lemma pathJoin_Inr:
  "pathJoin w ps e = (Inr p, e') \<longleftrightarrow>
     list_all (\<lambda>x. x \<noteq> None) ps \<and> p = join w (map the ps) \<and> e' = e"
  by (auto simp: pathJoin_def return_def throw_def)

lemmas returns =
  andThen_Inr thenDo_Inr return_Inr processExit_Inr throw_Inr execSync_Inr lift_Inr log_Inr
  pathJoin_Inr

lemma rawlist_Inr: "rawlist cs picks = Inr x \<Longrightarrow> x \<in> set cs"
  by (induction picks) (auto split: if_splits)


lemma getDefaultVMFolder_issued:
  "getDefaultVMFolder w e = (r, e') \<Longrightarrow> issued e' = issued e @ [systempropertiesCommand]"
  by (auto simp: getDefaultVMFolder_def tryCatch_def andThen_def thenDo_def return_def
      logError_def execSync_def split: option.splits)

lemma adapterNames_nonempty: "[] \<notin> set (adapterNames output)"
  by (simp add: adapterNames_def)

lemma listBridgedAdapters_eq:
  "listBridgedAdapters w v e =
     (Inr (case shell w (listBridgedifsCommand v) of None \<Rightarrow> [] | Some out \<Rightarrow> adapterNames out),
      e\<lparr>issued := issued e @ [listBridgedifsCommand v]\<rparr>)"
  by (auto simp: listBridgedAdapters_def tryCatch_def andThen_def return_def execSync_def
      split: option.splits)

lemma checkVBoxManage_Inr:
  "checkVBoxManage w e = (Inr v, e') \<longleftrightarrow>
     existsSync w (join w [virtualBoxPath, ''VBoxManage.exe'']) \<and>
     v = join w [virtualBoxPath, ''VBoxManage.exe''] \<and> e' = e"
  by (auto simp: checkVBoxManage_def Let_def returns)

lemma getAvailableInstallerImages_Inr:
  "getAvailableInstallerImages w e = (Inr imgs, e') \<longleftrightarrow>
     existsSync w (installerImagesFolder w) \<and>
     imgs = filter (\<lambda>file. endsWith file ''.iso'' \<or> endsWith file ''.img'')
              (readdirSync w (installerImagesFolder w)) \<and>
     imgs \<noteq> [] \<and> e' = e"
  by (auto simp: getAvailableInstallerImages_def Let_def returns)

lemma getAvailableISOs_Inr:
  "getAvailableISOs w e = (Inr imgs, e') \<longleftrightarrow>
     existsSync w (isoFolder w) \<and>
     imgs = filter (\<lambda>file. endsWith file ''.iso'') (readdirSync w (isoFolder w)) \<and>
     imgs \<noteq> [] \<and> e' = e"
  by (auto simp: getAvailableISOs_def Let_def returns)

lemma chooseNetwork_Inr:
  assumes "chooseNetwork w op e = (Inr (network, adapter), e')"
  shows "(network = ''nat'' \<and> adapter = None \<or>
          network = ''bridged'' \<and> (\<exists>a. adapter = Some a \<and> a \<noteq> [])) \<and>
         console e' \<in> {console e, console e @ [LogInfo ''No bridged adapters found. Using NAT.'']} \<and>
         issued e' \<in> {issued e,
            issued e @ [listBridgedifsCommand (join w [virtualBoxPath, ''VBoxManage.exe''])]}"
  using assms adapterNames_nonempty unfolding chooseNetwork_def
  by (auto simp: returns checkVBoxManage_Inr listBridgedAdapters_eq
      split: if_splits option.splits dest!: rawlist_Inr)

lemma promptUser_Inr:
  assumes "promptUser w op e = (Inr req, e')"
  shows "(networkType req = ''nat'' \<and> bridgedAdapter req = None \<or>
          networkType req = ''bridged'' \<and> (\<exists>a. bridgedAdapter req = Some a \<and> a \<noteq> [])) \<and>
         issued e' \<in> {issued e @ [systempropertiesCommand],
            issued e @ [systempropertiesCommand,
              listBridgedifsCommand (join w [virtualBoxPath, ''VBoxManage.exe''])]}"
  using assms unfolding promptUser_def
  by (auto simp: returns getAvailableInstallerImages_Inr split: prod.splits
      dest!: chooseNetwork_Inr getDefaultVMFolder_issued)

lemma promptUser_base_Inr:
  assumes "promptUser_base w op e = (Inr req, e')"
  shows "issued e' = issued e @ [systempropertiesCommand]"
  using assms unfolding promptUser_base_def
  by (auto simp: returns getAvailableISOs_Inr dest!: getDefaultVMFolder_issued)

lemma checkAndCreate_Inr:
  assumes "checkAndCreate w folder missing req e = (Inr (v, p), e')"
  shows "v = join w [virtualBoxPath, ''VBoxManage.exe''] \<and>
         p = join w [folder, imgSelection req] \<and>
         issued e' = issued e @ [listVmsCommand v,
            createvmCommand v (virtualMachineName req) (vmFolder req),
            modifyvmCommand v (virtualMachineName req)]"
  using assms unfolding checkAndCreate_def
  by (auto simp: returns checkVBoxManage_Inr split: if_splits)

lemma installAndStart_Inr:
  assumes "installAndStart w a v p req e = (Inr u, e')"
  shows "\<exists>wd. vmFolder req = Some wd \<and>
     issued e' = issued e @
       [convertfromrawCommand v p (join w [wd, virtualMachineName req, ''TcBSD_installer.vdi'']),
        storagectlCommand v (virtualMachineName req),
        storageattachCommand v (virtualMachineName req) ''1''
          (join w [wd, virtualMachineName req, ''TcBSD_installer.vdi'']),
        createmediumCommand v (join w [wd, virtualMachineName req, ''TcBSD.vhd''])
          (toMegabytes (hddSizeGB req)),
        storageattachCommand v (virtualMachineName req) ''0''
          (join w [wd, virtualMachineName req, ''TcBSD.vhd'']),
        startCommand (join w [join w [wd, virtualMachineName req],
                              virtualMachineName req @ ''.vbox''])]"
  using assms unfolding installAndStart_def
  by (auto simp: returns)


lemma setupVM_Inr:
  assumes "setupVM w op e0 = (Inr u, e)"
  shows "\<exists>req e1 wd.
     promptUser w op e0 = (Inr req, e1) \<and> vmFolder req = Some wd \<and>
     (let v = join w [virtualBoxPath, ''VBoxManage.exe''];
          name = virtualMachineName req;
          img = join w [installerImagesFolder w, imgSelection req];
          vdi = join w [wd, name, ''TcBSD_installer.vdi''];
          vhd = join w [wd, name, ''TcBSD.vhd'']
      in issued e = issued e1 @
           [listVmsCommand v,
            createvmCommand v name (Some wd),
            modifyvmCommand v name,
            (if networkType req = ''bridged'' then bridgedCommand v name (render (bridgedAdapter req))
             else natCommand v name),
            convertfromrawCommand v img vdi,
            storagectlCommand v name,
            storageattachCommand v name ''1'' vdi,
            createmediumCommand v vhd (toMegabytes (hddSizeGB req)),
            storageattachCommand v name ''0'' vhd,
            startCommand (join w [join w [wd, name], name @ ''.vbox''])])"
proof -
  from assms obtain req e1 v p e2 u3 e3 where
    pu: "promptUser w op e0 = (Inr req, e1)" and
    cc: "checkAndCreate w (installerImagesFolder w) ''Failed: Missing TC image: '' req e1 = (Inr (v, p), e2)" and
    net: "(if networkType req = ''bridged'' then
               (if falsy (bridgedAdapter req) then
                  logInfo ''No bridged adapters found. Network adapter will not be configured.''
                else
                  thenDo (logInfo (''Setting bridged network adapter to: ''
                                   @ render (bridgedAdapter req)))
                    (thenDo (execSync w (bridgedCommand v (virtualMachineName req)
                                          (render (bridgedAdapter req))))
                      (return ())))
             else
               thenDo (logInfo ''Setting network adapter to NAT'')
                 (thenDo (execSync w (natCommand v (virtualMachineName req)))
                   (return ()))) e2 = (Inr u3, e3)" and
    ias: "installAndStart w ''Converting image to installer VDI...'' v p req e3 = (Inr u, e)"
    unfolding setupVM_def by (auto simp: andThen_Inr thenDo_Inr split: prod.splits)
  from promptUser_Inr[OF pu] have
    nt: "networkType req = ''nat'' \<and> bridgedAdapter req = None \<or>
         networkType req = ''bridged'' \<and> (\<exists>a. bridgedAdapter req = Some a \<and> a \<noteq> [])"
    by simp
  from checkAndCreate_Inr[OF cc] have
    v: "v = join w [virtualBoxPath, ''VBoxManage.exe'']" and
    p: "p = join w [installerImagesFolder w, imgSelection req]" and
    i2: "issued e2 = issued e1 @ [listVmsCommand v,
            createvmCommand v (virtualMachineName req) (vmFolder req),
            modifyvmCommand v (virtualMachineName req)]"
    by simp_all
  from net nt have i3: "issued e3 = issued e2 @
      [if networkType req = ''bridged''
       then bridgedCommand v (virtualMachineName req) (render (bridgedAdapter req))
       else natCommand v (virtualMachineName req)]"
    by (auto simp: returns falsy_def split: if_splits)
  from installAndStart_Inr[OF ias] obtain wd where
    wd: "vmFolder req = Some wd" and
    i4: "issued e = issued e3 @
       [convertfromrawCommand v p (join w [wd, virtualMachineName req, ''TcBSD_installer.vdi'']),
        storagectlCommand v (virtualMachineName req),
        storageattachCommand v (virtualMachineName req) ''1''
          (join w [wd, virtualMachineName req, ''TcBSD_installer.vdi'']),
        createmediumCommand v (join w [wd, virtualMachineName req, ''TcBSD.vhd''])
          (toMegabytes (hddSizeGB req)),
        storageattachCommand v (virtualMachineName req) ''0''
          (join w [wd, virtualMachineName req, ''TcBSD.vhd'']),
        startCommand (join w [join w [wd, virtualMachineName req],
                              virtualMachineName req @ ''.vbox''])]"
    by blast
  show ?thesis
    using pu wd i2 i3 i4 v p by (simp add: Let_def)
qed


subsection \<open>Runs in the laboratory\<close>

lemmas run_defs =
  main_base_def main_def conclude_def setupVM_base_def setupVM_def promptUser_base_def
  promptUser_def chooseNetwork_def checkAndCreate_def installAndStart_def getAvailableISOs_def
  getAvailableInstallerImages_def getDefaultVMFolder_def checkVBoxManage_def
  listBridgedAdapters_def adapterNames_def firstAdapterOf_def afterFirstColon_def falsy_def
  andThen_def thenDo_def return_def lift_def processExit_def throw_def tryCatch_def
  logInfo_def logStep_def logSuccess_def logError_def execSync_def pathJoin_def render_def
  uncaughtException_def isoFolder_def installerImagesFolder_def hddSizeGBDefault_def
  getTimestamp_def pad_def toStringNat.simps validateHddSize_def isNaN_def toMegabytes_def
  matchHere_def toNumber_def trim_def trimStart_def trimEnd_def isWhiteSpace_def
  isLineTerminator_def nonDecimalLiteral_def strDecimalLiteral_def unsignedDecimalLiteral_def
  exponentPart_def isDigit_def decimalValue_def radixValue_def digitOf_def parseInt_def
  startsWith_def endsWith_def

lemmas command_defs =
  systempropertiesCommand_def listVmsCommand_def listBridgedifsCommand_def createvmCommand_def
  modifyvmCommand_def bridgedCommand_def natCommand_def convertfromrawCommand_def
  storagectlCommand_def storageattachCommand_def createmediumCommand_def startCommand_def
  toStringNumber_def

lemmas lab_defs =
  labWorld_def labShell_def labVBoxManage_def labFolder_def labFile_def backslashJoin_def
  acceptDefaults_def askForOldVM_def typesFraction_def interruptsAtImage_def
  silentWorld_def brokenWorld_def emptyListing_def vboxManagePath_def nl_def virtualBoxPath_def backslash_def oneAdapter_def



lemma checkAndCreate_existing:
  assumes "shell w (listVmsCommand (vboxManagePath w)) = Some vms"
    and "str_includes vms ([CHR 0x22] @ virtualMachineName req @ [CHR 0x22])"
  shows "\<exists>e'. checkAndCreate w folder missing req e = (Inl (ProcessExit 1), e') \<and>
              issued e' \<in> {issued e, issued e @ [listVmsCommand (vboxManagePath w)]}"
  using assms
  by (simp add: checkAndCreate_def checkVBoxManage_def vboxManagePath_def andThen_def thenDo_def
      return_def processExit_def logError_def logInfo_def execSync_def Let_def)

lemma promptUser_queries:
  assumes "promptUser w op \<lparr>issued = [], console = []\<rparr> = (Inr req, e1)"
  shows "set (issued e1) \<subseteq> {systempropertiesCommand, listBridgedifsCommand (vboxManagePath w)}"
  using promptUser_Inr[OF assms] by (auto simp: vboxManagePath_def)

lemma lab_prompt_old:
  "promptUser (labWorld oneAdapter) askForOldVM \<lparr>issued = [], console = []\<rparr> =
     (Inr \<lparr>virtualMachineName = ''Old VM'', imgSelection = ''tcbsd.iso'', hddSizeGB = Some 10,
           vmFolder = Some labFolder, networkType = ''bridged'',
           bridgedAdapter = Some ''Intel(R) Ethernet Connection''\<rparr>,
      \<lparr>issued = [systempropertiesCommand, listBridgedifsCommand labVBoxManage],
       console = []\<rparr>)"
  by (simp add: run_defs lab_defs command_defs)

lemma lab_prompt_old_base:
  "promptUser_base (labWorld oneAdapter) askForOldVM \<lparr>issued = [], console = []\<rparr> =
     (Inr \<lparr>virtualMachineName = ''Old VM'', imgSelection = ''tcbsd.iso'', hddSizeGB = Some 10,
           vmFolder = Some labFolder\<rparr>,
      \<lparr>issued = [systempropertiesCommand], console = []\<rparr>)"
  by (simp add: run_defs lab_defs command_defs)

lemma lab_vms:
  \<open>shell (labWorld oneAdapter) (listVmsCommand (vboxManagePath (labWorld oneAdapter)))
     = Some (''"Old VM" {8d1f6bd4-0000-4000-8000-000000000001}'' @ nl)\<close>
  by (simp add: lab_defs command_defs)

lemma lab_old_listed:
  \<open>sublist ([CHR 0x22] @ ''Old VM'' @ [CHR 0x22])
     (''"Old VM" {8d1f6bd4-0000-4000-8000-000000000001}'' @ nl)\<close>
  unfolding str_includes_sublist[symmetric] by (simp add: startsWith_def)

section \<open>The claims\<close>

text \<open>
  C4: the disk-size validator accepts a string exactly when its conversion to a number
  is not \<^verbatim>\<open>NaN\<close> and is greater than zero; for a string of decimal digits that is
  when the number written is positive. It rejects \<^verbatim>\<open>0\<close>, \<^verbatim>\<open>-5\<close> and \<^verbatim>\<open>abc\<close>, and
  accepts \<^verbatim>\<open>10\<close>, \<^verbatim>\<open>1\<close> and \<^verbatim>\<open>250\<close>.
\<close>

theorem disk_size_validator_accepts_positive_numbers:
  "(validateHddSize s = Valid \<longleftrightarrow> toNumber s \<noteq> NaN \<and> greaterThanZero (toNumber s))
   \<and> (s \<noteq> [] \<and> list_all isDigit s \<longrightarrow> (validateHddSize s = Valid \<longleftrightarrow> 0 < decimalValue s))
   \<and> validateHddSize ''0'' \<noteq> Valid \<and> validateHddSize ''-5'' \<noteq> Valid
   \<and> validateHddSize ''abc'' \<noteq> Valid
   \<and> validateHddSize ''10'' = Valid \<and> validateHddSize ''1'' = Valid
   \<and> validateHddSize ''250'' = Valid"
proof -
  have general: "validateHddSize s = Valid \<longleftrightarrow> toNumber s \<noteq> NaN \<and> greaterThanZero (toNumber s)"
    by (simp add: validateHddSize_def isNaN_def)
  have digits: "validateHddSize t = Valid \<longleftrightarrow> 0 < decimalValue t"
    if "t \<noteq> []" "list_all isDigit t" for t
    using toNumber_digits[OF that] by (simp add: validateHddSize_def isNaN_def)
  have minus: "toNumber ''-5'' = Finite True 5 0"
    by (simp add: toNumber_def trim_def trimStart_def trimEnd_def isWhiteSpace_def
        nonDecimalLiteral_def strDecimalLiteral_def unsignedDecimalLiteral_def exponentPart_def
        isDigit_def decimalValue_def radixValue_def digitOf_def)
  have abc: "toNumber ''abc'' = NaN"
    by (simp add: toNumber_def trim_def trimStart_def trimEnd_def isWhiteSpace_def
        nonDecimalLiteral_def strDecimalLiteral_def unsignedDecimalLiteral_def exponentPart_def
        isDigit_def decimalValue_def radixValue_def digitOf_def)
  have d0: "validateHddSize ''0'' \<noteq> Valid"
    using digits[of "''0''"] by (simp add: isDigit_def decimalValue_def radixValue_def digitOf_def)
  have d10: "validateHddSize ''10'' = Valid"
    using digits[of "''10''"] by (simp add: isDigit_def decimalValue_def radixValue_def digitOf_def)
  have d1: "validateHddSize ''1'' = Valid"
    using digits[of "''1''"] by (simp add: isDigit_def decimalValue_def radixValue_def digitOf_def)
  have d250: "validateHddSize ''250'' = Valid"
    using digits[of "''250''"] by (simp add: isDigit_def decimalValue_def radixValue_def digitOf_def)
  have m5: "validateHddSize ''-5'' \<noteq> Valid" by (simp add: validateHddSize_def minus)
  have nabc: "validateHddSize ''abc'' \<noteq> Valid" by (simp add: validateHddSize_def abc isNaN_def)
  from general digits[of s] d0 m5 nabc d10 d1 d250 show ?thesis by blast
qed

theorem disk_size_validator_witness:
  "''42'' \<noteq> [] \<and> list_all isDigit ''42'' \<and> validateHddSize ''42'' = Valid \<and> 0 < decimalValue ''42''"
  using disk_size_validator_accepts_positive_numbers[of "''42''"]
  by (simp add: isDigit_def decimalValue_def radixValue_def digitOf_def)

text \<open>
  C2: when the name asked for occurs, in double quotes, in the output of the registry
  listing, the run ends with exit code 1, and the only commands issued are the queries
  of the collection (system properties, and in the extended variant possibly the
  interface listing) and at most the registry listing itself: no provisioning command.
\<close>

theorem existing_name_halts_before_provisioning:
  "(promptUser w op \<lparr>issued = [], console = []\<rparr> = (Inr req, e1)
    \<and> shell w (listVmsCommand (vboxManagePath w)) = Some vms
    \<and> sublist ([CHR 0x22] @ virtualMachineName req @ [CHR 0x22]) vms
    \<longrightarrow> (\<exists>e. main w op = (Exited 1, e) \<and> exitCode (fst (main w op)) \<noteq> 0
           \<and> issued e \<in> {issued e1, issued e1 @ [listVmsCommand (vboxManagePath w)]}
           \<and> set (issued e1)
               \<subseteq> {systempropertiesCommand, listBridgedifsCommand (vboxManagePath w)}))
   \<and> (promptUser_base w op \<lparr>issued = [], console = []\<rparr> = (Inr req', e1')
    \<and> shell w (listVmsCommand (vboxManagePath w)) = Some vms
    \<and> sublist ([CHR 0x22] @ virtualMachineName req' @ [CHR 0x22]) vms
    \<longrightarrow> (\<exists>e. main_base w op = (Exited 1, e) \<and> exitCode (fst (main_base w op)) \<noteq> 0
           \<and> issued e \<in> {issued e1', issued e1' @ [listVmsCommand (vboxManagePath w)]}
           \<and> issued e1' = [systempropertiesCommand]))"
proof (intro conjI impI)
  assume a: "promptUser w op \<lparr>issued = [], console = []\<rparr> = (Inr req, e1)
    \<and> shell w (listVmsCommand (vboxManagePath w)) = Some vms
    \<and> sublist ([CHR 0x22] @ virtualMachineName req @ [CHR 0x22]) vms"
  then have inc: "str_includes vms ([CHR 0x22] @ virtualMachineName req @ [CHR 0x22])"
    by (simp add: str_includes_sublist)
  from a have pu: "promptUser w op \<lparr>issued = [], console = []\<rparr> = (Inr req, e1)"
    and sh: "shell w (listVmsCommand (vboxManagePath w)) = Some vms" by simp_all
  from checkAndCreate_existing[OF sh inc] obtain e where
    cc: "checkAndCreate w (installerImagesFolder w) ''Failed: Missing TC image: '' req e1
           = (Inl (ProcessExit 1), e)"
    and ie: "issued e \<in> {issued e1, issued e1 @ [listVmsCommand (vboxManagePath w)]}"
    by blast
  have "setupVM w op \<lparr>issued = [], console = []\<rparr> = (Inl (ProcessExit 1), e)"
    by (simp add: setupVM_def andThen_def pu cc)
  then have m: "main w op = (Exited 1, e)" by (simp add: main_def conclude_def)
  show "\<exists>e. main w op = (Exited 1, e) \<and> exitCode (fst (main w op)) \<noteq> 0
           \<and> issued e \<in> {issued e1, issued e1 @ [listVmsCommand (vboxManagePath w)]}
           \<and> set (issued e1)
               \<subseteq> {systempropertiesCommand, listBridgedifsCommand (vboxManagePath w)}"
    using m ie promptUser_queries[OF pu] by simp
next
  assume a: "promptUser_base w op \<lparr>issued = [], console = []\<rparr> = (Inr req', e1')
    \<and> shell w (listVmsCommand (vboxManagePath w)) = Some vms
    \<and> sublist ([CHR 0x22] @ virtualMachineName req' @ [CHR 0x22]) vms"
  then have inc: "str_includes vms ([CHR 0x22] @ virtualMachineName req' @ [CHR 0x22])"
    by (simp add: str_includes_sublist)
  from a have pu: "promptUser_base w op \<lparr>issued = [], console = []\<rparr> = (Inr req', e1')"
    and sh: "shell w (listVmsCommand (vboxManagePath w)) = Some vms" by simp_all
  from checkAndCreate_existing[OF sh inc] obtain e where
    cc: "checkAndCreate w (isoFolder w) ''Failed: Missing TCBSD image: '' req' e1'
           = (Inl (ProcessExit 1), e)"
    and ie: "issued e \<in> {issued e1', issued e1' @ [listVmsCommand (vboxManagePath w)]}"
    by blast
  have "setupVM_base w op \<lparr>issued = [], console = []\<rparr> = (Inl (ProcessExit 1), e)"
    by (simp add: setupVM_base_def andThen_def pu cc)
  then have m: "main_base w op = (Exited 1, e)" by (simp add: main_base_def conclude_def)
  show "\<exists>e. main_base w op = (Exited 1, e) \<and> exitCode (fst (main_base w op)) \<noteq> 0
           \<and> issued e \<in> {issued e1', issued e1' @ [listVmsCommand (vboxManagePath w)]}
           \<and> issued e1' = [systempropertiesCommand]"
    using m ie promptUser_base_Inr[OF pu] by simp
qed

theorem existing_name_witness:
  \<open>sublist ([CHR 0x22] @ ''Old VM'' @ [CHR 0x22])
     (''"Old VM" {8d1f6bd4-0000-4000-8000-000000000001}'' @ nl)
   \<and> fst (main (labWorld oneAdapter) askForOldVM) = Exited 1
   \<and> fst (main_base (labWorld oneAdapter) askForOldVM) = Exited 1\<close>
  using existing_name_halts_before_provisioning
    [where w = "labWorld oneAdapter" and op = askForOldVM]
    lab_prompt_old lab_prompt_old_base lab_vms lab_old_listed
  by fastforce







text \<open>
  C3: when the folder exists, image discovery returns the file names of the listing
  that end in \<^verbatim>\<open>.iso\<close> (base variant) or in \<^verbatim>\<open>.iso\<close> or \<^verbatim>\<open>.img\<close> (extended variant), in
  the order of the listing; when there is none, it logs an error and ends the process
  with exit code 1 instead of returning an empty list.
\<close>

theorem image_discovery_filters_by_extension:
  "(existsSync w (isoFolder w) \<longrightarrow>
      (let found = filter (\<lambda>file. suffix ''.iso'' file) (readdirSync w (isoFolder w))
       in (found \<noteq> [] \<longrightarrow> getAvailableISOs w e = (Inr found, e)) \<and>
          (found = [] \<longrightarrow>
             (\<exists>msg. getAvailableISOs w e
                = (Inl (ProcessExit 1), e\<lparr>console := console e @ [LogError msg]\<rparr>)))))
   \<and> (existsSync w (installerImagesFolder w) \<longrightarrow>
      (let found = filter (\<lambda>file. suffix ''.iso'' file \<or> suffix ''.img'' file)
                     (readdirSync w (installerImagesFolder w))
       in (found \<noteq> [] \<longrightarrow> getAvailableInstallerImages w e = (Inr found, e)) \<and>
          (found = [] \<longrightarrow>
             (\<exists>msg. getAvailableInstallerImages w e
                = (Inl (ProcessExit 1), e\<lparr>console := console e @ [LogError msg]\<rparr>)))))"
  by (auto simp: getAvailableISOs_def getAvailableInstallerImages_def Let_def endsWith_suffix
      thenDo_def andThen_def logError_def processExit_def return_def)

theorem image_discovery_witness:
  "existsSync (labWorld oneAdapter) (installerImagesFolder (labWorld oneAdapter))
   \<and> existsSync (labWorld oneAdapter) (isoFolder (labWorld oneAdapter))
   \<and> getAvailableInstallerImages (labWorld oneAdapter) \<lparr>issued = [], console = []\<rparr>
       = (Inr [''tcbsd.iso'', ''rtlinux.img''], \<lparr>issued = [], console = []\<rparr>)
   \<and> getAvailableISOs (labWorld oneAdapter) \<lparr>issued = [], console = []\<rparr>
       = (Inr [''tcbsd.iso''], \<lparr>issued = [], console = []\<rparr>)"
proof -
  have ex: "existsSync (labWorld oneAdapter) p" for p by (simp add: labWorld_def)
  have iso: "filter (\<lambda>file. suffix ''.iso'' file)
       (readdirSync (labWorld oneAdapter) (isoFolder (labWorld oneAdapter))) = [''tcbsd.iso'']"
    by (simp add: labWorld_def endsWith_suffix[symmetric] endsWith_def)
  have img: "filter (\<lambda>file. suffix ''.iso'' file \<or> suffix ''.img'' file)
       (readdirSync (labWorld oneAdapter) (installerImagesFolder (labWorld oneAdapter)))
         = [''tcbsd.iso'', ''rtlinux.img'']"
    by (simp add: labWorld_def endsWith_suffix[symmetric] endsWith_def)
  show ?thesis
    using image_discovery_filters_by_extension
      [of "labWorld oneAdapter" "\<lparr>issued = [], console = []\<rparr>"] ex
    by (simp add: iso img)
qed

lemma chooseNetwork_fallback:
  assumes "chooseNetwork w op e = (Inr (network, adapter), e')"
    and "rawlist [''nat'', ''bridged''] (networkChosen op) = Inr ''bridged''"
    and "\<forall>out. shell w (listBridgedifsCommand (vboxManagePath w)) = Some out
               \<longrightarrow> adapterNames out = []"
  shows "network = ''nat'' \<and> adapter = None \<and>
         e' = e\<lparr>issued := issued e @ [listBridgedifsCommand (vboxManagePath w)],
                console := console e @ [LogInfo ''No bridged adapters found. Using NAT.'']\<rparr>"
  using assms unfolding chooseNetwork_def
  by (auto simp: returns checkVBoxManage_Inr listBridgedAdapters_eq vboxManagePath_def
      split: if_splits option.splits)

text \<open>
  C7: in the extended variant, when the operator picks bridged networking and no adapter
  name is read from the interface listing (or the listing fails), the request collected
  has network mode NAT and no adapter, the message that NAT is used is the last line
  logged by the collection, only queries have been issued by then, and a run that
  completes configures the adapter with the NAT command.
\<close>

theorem bridged_without_adapters_falls_back_to_nat:
  "promptUser w op e0 = (Inr req, e1)
   \<and> rawlist [''nat'', ''bridged''] (networkChosen op) = Inr ''bridged''
   \<and> (\<forall>out. shell w (listBridgedifsCommand (vboxManagePath w)) = Some out
              \<longrightarrow> adapterNames out = [])
   \<longrightarrow> networkType req = ''nat'' \<and> bridgedAdapter req = None
       \<and> last (console e1) = LogInfo ''No bridged adapters found. Using NAT.''
       \<and> issued e1 = issued e0 @ [systempropertiesCommand,
                                   listBridgedifsCommand (vboxManagePath w)]
       \<and> (\<forall>u e. setupVM w op e0 = (Inr u, e) \<longrightarrow>
             take 4 (drop (length (issued e1)) (issued e))
               = [listVmsCommand (vboxManagePath w),
                  createvmCommand (vboxManagePath w) (virtualMachineName req) (vmFolder req),
                  modifyvmCommand (vboxManagePath w) (virtualMachineName req),
                  natCommand (vboxManagePath w) (virtualMachineName req)])"
proof (intro impI)
  assume a: "promptUser w op e0 = (Inr req, e1)
   \<and> rawlist [''nat'', ''bridged''] (networkChosen op) = Inr ''bridged''
   \<and> (\<forall>out. shell w (listBridgedifsCommand (vboxManagePath w)) = Some out
              \<longrightarrow> adapterNames out = [])"
  then have pu: "promptUser w op e0 = (Inr req, e1)"
    and pick: "rawlist [''nat'', ''bridged''] (networkChosen op) = Inr ''bridged''"
    and none: "\<forall>out. shell w (listBridgedifsCommand (vboxManagePath w)) = Some out
              \<longrightarrow> adapterNames out = []"
    by simp_all
  from pu obtain e2 network adapter where
    cn: "chooseNetwork w op e2 = (Inr (network, adapter), e1)"
    and i2: "issued e2 = issued e0 @ [systempropertiesCommand]"
    and nt: "networkType req = network" and ba: "bridgedAdapter req = adapter"
    unfolding promptUser_def
    by (auto simp: returns getAvailableInstallerImages_Inr split: prod.splits
        dest!: getDefaultVMFolder_issued)
  from chooseNetwork_fallback[OF cn pick none] have
    n: "network = ''nat''" and ad: "adapter = None"
    and e1: "e1 = e2\<lparr>issued := issued e2 @ [listBridgedifsCommand (vboxManagePath w)],
                console := console e2 @ [LogInfo ''No bridged adapters found. Using NAT.'']\<rparr>"
    by simp_all
  have run: "take 4 (drop (length (issued e1)) (issued e))
               = [listVmsCommand (vboxManagePath w),
                  createvmCommand (vboxManagePath w) (virtualMachineName req) (vmFolder req),
                  modifyvmCommand (vboxManagePath w) (virtualMachineName req),
                  natCommand (vboxManagePath w) (virtualMachineName req)]"
    if s: "setupVM w op e0 = (Inr u, e)" for u e
    using setupVM_Inr[OF s] pu nt n by (auto simp: Let_def vboxManagePath_def)
  show "networkType req = ''nat'' \<and> bridgedAdapter req = None
       \<and> last (console e1) = LogInfo ''No bridged adapters found. Using NAT.''
       \<and> issued e1 = issued e0 @ [systempropertiesCommand,
                                   listBridgedifsCommand (vboxManagePath w)]
       \<and> (\<forall>u e. setupVM w op e0 = (Inr u, e) \<longrightarrow>
             take 4 (drop (length (issued e1)) (issued e))
               = [listVmsCommand (vboxManagePath w),
                  createvmCommand (vboxManagePath w) (virtualMachineName req) (vmFolder req),
                  modifyvmCommand (vboxManagePath w) (virtualMachineName req),
                  natCommand (vboxManagePath w) (virtualMachineName req)])"
    using nt ba n ad e1 i2 run by simp
qed

lemma lab_prompt_fallback:
  "promptUser (labWorld emptyListing) acceptDefaults \<lparr>issued = [], console = []\<rparr> =
     (Inr \<lparr>virtualMachineName = ''TwinCAT_VM_20250724_134205'', imgSelection = ''tcbsd.iso'',
           hddSizeGB = Some 10, vmFolder = Some labFolder, networkType = ''nat'',
           bridgedAdapter = None\<rparr>,
      \<lparr>issued = [systempropertiesCommand, listBridgedifsCommand labVBoxManage],
       console = [LogInfo ''No bridged adapters found. Using NAT.'']\<rparr>)"
  by (simp add: run_defs lab_defs command_defs)

lemma lab_no_adapters:
  "\<forall>out. shell (labWorld emptyListing)
            (listBridgedifsCommand (vboxManagePath (labWorld emptyListing))) = Some out
          \<longrightarrow> adapterNames out = []"
  by (simp add: lab_defs command_defs adapterNames_def trim_def trimStart_def trimEnd_def
      startsWith_def)

theorem bridged_fallback_witness:
  "rawlist [''nat'', ''bridged''] (networkChosen acceptDefaults) = Inr ''bridged''
   \<and> adapterNames emptyListing = []
   \<and> networkType (projr (fst (promptUser (labWorld emptyListing) acceptDefaults
         \<lparr>issued = [], console = []\<rparr>))) = ''nat''"
  using bridged_without_adapters_falls_back_to_nat
    [of "labWorld emptyListing" acceptDefaults "\<lparr>issued = [], console = []\<rparr>"]
    lab_prompt_fallback lab_no_adapters
  by (simp add: acceptDefaults_def emptyListing_def adapterNames_def trim_def trimStart_def
      trimEnd_def startsWith_def)














lemma andThen_Inl:
  "andThen m f e = (Inl h, e') \<longleftrightarrow>
     m e = (Inl h, e') \<or> (\<exists>x e1. m e = (Inr x, e1) \<and> f x e1 = (Inl h, e'))"
  by (auto simp: andThen_def split: prod.splits sum.splits)

lemma thenDo_Inl:
  "thenDo m k e = (Inl h, e') \<longleftrightarrow>
     m e = (Inl h, e') \<or> (\<exists>x e1. m e = (Inr x, e1) \<and> k e1 = (Inl h, e'))"
  by (simp add: thenDo_def andThen_Inl)

lemma return_Inl: "return x e = (Inl h, e') \<longleftrightarrow> False"
  by (simp add: return_def)

lemma processExit_Inl: "processExit c e = (Inl h, e') \<longleftrightarrow> h = ProcessExit c \<and> e' = e"
  by (auto simp: processExit_def)

lemma throw_Inl: "throw err e = (Inl h, e') \<longleftrightarrow> h = Thrown err \<and> e' = e"
  by (auto simp: throw_def)

lemma execSync_Inl:
  "execSync w c e = (Inl h, e') \<longleftrightarrow>
     shell w c = None \<and> h = Thrown (ExecError c) \<and> e' = e\<lparr>issued := issued e @ [c]\<rparr>"
  by (auto simp: execSync_def split: option.splits)

lemma lift_Inl: "lift r e = (Inl h, e') \<longleftrightarrow> r = Inl h \<and> e' = e"
  by (auto simp: lift_def)

lemma log_Inl:
  "logInfo m e = (Inl h, e') \<longleftrightarrow> False"
  "logStep m e = (Inl h, e') \<longleftrightarrow> False"
  "logSuccess m e = (Inl h, e') \<longleftrightarrow> False"
  "logError m e = (Inl h, e') \<longleftrightarrow> False"
  by (auto simp: logInfo_def logStep_def logSuccess_def logError_def)

lemma pathJoin_Inl:
  "pathJoin w ps e = (Inl h, e') \<longleftrightarrow>
     \<not> list_all (\<lambda>x. x \<noteq> None) ps \<and> h = Thrown TypeError \<and> e' = e"
  by (auto simp: pathJoin_def return_def throw_def)

lemmas halts =
  andThen_Inl thenDo_Inl return_Inl processExit_Inl throw_Inl execSync_Inl lift_Inl log_Inl
  pathJoin_Inl

lemma getDefaultVMFolder_Inl: "getDefaultVMFolder w e = (Inl h, e') \<longleftrightarrow> False"
  by (auto simp: getDefaultVMFolder_def tryCatch_def andThen_def thenDo_def return_def
      logError_def execSync_def split: option.splits)

lemma checkVBoxManage_Inl:
  "checkVBoxManage w e = (Inl h, e') \<Longrightarrow> h = ProcessExit 1 \<and> issued e' = issued e"
  by (auto simp: checkVBoxManage_def Let_def halts returns split: if_splits)

lemma getAvailableInstallerImages_Inl:
  "getAvailableInstallerImages w e = (Inl h, e') \<Longrightarrow> h = ProcessExit 1 \<and> issued e' = issued e"
  by (auto simp: getAvailableInstallerImages_def Let_def halts returns split: if_splits)

lemma getAvailableISOs_Inl:
  "getAvailableISOs w e = (Inl h, e') \<Longrightarrow> h = ProcessExit 1 \<and> issued e' = issued e"
  by (auto simp: getAvailableISOs_def Let_def halts returns split: if_splits)

lemma chooseNetwork_Inl:
  assumes "chooseNetwork w op e = (Inl h, e')"
  shows "issued e' \<in> {issued e, issued e @ [listBridgedifsCommand (vboxManagePath w)]}"
  using assms unfolding chooseNetwork_def
  by (auto simp: halts returns checkVBoxManage_Inr listBridgedAdapters_eq vboxManagePath_def
      split: if_splits dest!: checkVBoxManage_Inl)

lemma promptUser_Inl:
  assumes "promptUser w op e = (Inl h, e')"
  shows "issued e' \<in> {issued e, issued e @ [systempropertiesCommand],
           issued e @ [systempropertiesCommand, listBridgedifsCommand (vboxManagePath w)]}"
  using assms unfolding promptUser_def
  by (auto simp: halts returns getAvailableInstallerImages_Inr getDefaultVMFolder_Inl
      split: prod.splits
      dest!: getAvailableInstallerImages_Inl getDefaultVMFolder_issued chooseNetwork_Inl)

lemma promptUser_base_Inl:
  assumes "promptUser_base w op e = (Inl h, e')"
  shows "issued e' \<in> {issued e, issued e @ [systempropertiesCommand]}"
  using assms unfolding promptUser_base_def
  by (auto simp: halts returns getAvailableISOs_Inr getDefaultVMFolder_Inl
      dest!: getAvailableISOs_Inl getDefaultVMFolder_issued)

lemma checkAndCreate_not_cancelled:
  "checkAndCreate w folder missing req e \<noteq> (Inl (Thrown ExitPromptError), e')"
  unfolding checkAndCreate_def
  by (auto simp: halts returns split: if_splits dest!: checkVBoxManage_Inl)

lemma installAndStart_not_cancelled:
  "installAndStart w a v p req e \<noteq> (Inl (Thrown ExitPromptError), e')"
  unfolding installAndStart_def
  by (auto simp: halts returns)

lemma setupVM_cancelled:
  assumes "setupVM w op e0 = (Inl (Thrown ExitPromptError), e)"
  shows "promptUser w op e0 = (Inl (Thrown ExitPromptError), e)"
  using assms unfolding setupVM_def
  by (auto simp: halts returns checkAndCreate_not_cancelled installAndStart_not_cancelled
      split: prod.splits if_splits)

lemma setupVM_base_cancelled:
  assumes "setupVM_base w op e0 = (Inl (Thrown ExitPromptError), e)"
  shows "promptUser_base w op e0 = (Inl (Thrown ExitPromptError), e)"
  using assms unfolding setupVM_base_def
  by (auto simp: halts returns checkAndCreate_not_cancelled installAndStart_not_cancelled
      split: prod.splits if_splits)

lemma conclude_thrown:
  "conclude (Inl (Thrown err), e) =
     (if err = ExitPromptError then (Handled, e\<lparr>console := console e @ [LogError ''Exiting'']\<rparr>)
      else (Crashed err, e))"
  by (cases err) (simp_all add: conclude_def uncaughtException_def logError_def throw_def)

text \<open>
  C8 (as amended): when a prompt is interrupted, the handler logs the one line
  \<^verbatim>\<open>Exiting\<close> and returns, so that the process ends with exit code 0; this happens
  during the collection only, with no command issued but the queries. Any other error
  is thrown again by the handler: the process ends with that error reported and a
  non-zero exit code.
\<close>

theorem cancellation_is_handled_quietly:
  "(setupVM w op \<lparr>issued = [], console = []\<rparr> = (Inl (Thrown ExitPromptError), e) \<longrightarrow>
      main w op = (Handled, e\<lparr>console := console e @ [LogError ''Exiting'']\<rparr>)
      \<and> exitCode (fst (main w op)) = 0
      \<and> issued e \<in> {[], [systempropertiesCommand],
           [systempropertiesCommand, listBridgedifsCommand (vboxManagePath w)]})
   \<and> (setupVM w op \<lparr>issued = [], console = []\<rparr> = (Inl (Thrown err), e)
       \<and> err \<noteq> ExitPromptError \<longrightarrow>
      main w op = (Crashed err, e) \<and> exitCode (fst (main w op)) \<noteq> 0)
   \<and> (setupVM_base w op \<lparr>issued = [], console = []\<rparr> = (Inl (Thrown ExitPromptError), e') \<longrightarrow>
      main_base w op = (Handled, e'\<lparr>console := console e' @ [LogError ''Exiting'']\<rparr>)
      \<and> exitCode (fst (main_base w op)) = 0
      \<and> issued e' \<in> {[], [systempropertiesCommand]})
   \<and> (setupVM_base w op \<lparr>issued = [], console = []\<rparr> = (Inl (Thrown err'), e')
       \<and> err' \<noteq> ExitPromptError \<longrightarrow>
      main_base w op = (Crashed err', e') \<and> exitCode (fst (main_base w op)) \<noteq> 0)"
proof (intro conjI impI)
  assume a: "setupVM w op \<lparr>issued = [], console = []\<rparr> = (Inl (Thrown ExitPromptError), e)"
  then show m: "main w op = (Handled, e\<lparr>console := console e @ [LogError ''Exiting'']\<rparr>)"
    by (simp add: main_def conclude_thrown)
  then show "exitCode (fst (main w op)) = 0" by simp
  from promptUser_Inl[OF setupVM_cancelled[OF a]]
  show "issued e \<in> {[], [systempropertiesCommand],
           [systempropertiesCommand, listBridgedifsCommand (vboxManagePath w)]}" by simp
next
  assume a: "setupVM w op \<lparr>issued = [], console = []\<rparr> = (Inl (Thrown err), e)
       \<and> err \<noteq> ExitPromptError"
  then show m: "main w op = (Crashed err, e)" by (simp add: main_def conclude_thrown)
  then show "exitCode (fst (main w op)) \<noteq> 0" by simp
next
  assume a: "setupVM_base w op \<lparr>issued = [], console = []\<rparr> = (Inl (Thrown ExitPromptError), e')"
  then show m: "main_base w op
      = (Handled, e'\<lparr>console := console e' @ [LogError ''Exiting'']\<rparr>)"
    by (simp add: main_base_def conclude_thrown)
  then show "exitCode (fst (main_base w op)) = 0" by simp
  from promptUser_base_Inl[OF setupVM_base_cancelled[OF a]]
  show "issued e' \<in> {[], [systempropertiesCommand]}" by simp
next
  assume a: "setupVM_base w op \<lparr>issued = [], console = []\<rparr> = (Inl (Thrown err'), e')
       \<and> err' \<noteq> ExitPromptError"
  then show m: "main_base w op = (Crashed err', e')" by (simp add: main_base_def conclude_thrown)
  then show "exitCode (fst (main_base w op)) \<noteq> 0" by simp
qed

lemma lab_cancel:
  "setupVM (labWorld oneAdapter) interruptsAtImage \<lparr>issued = [], console = []\<rparr>
     = (Inl (Thrown ExitPromptError), \<lparr>issued = [], console = []\<rparr>)"
  by (simp add: run_defs lab_defs command_defs)

lemma lab_cancel_base:
  "setupVM_base (labWorld oneAdapter) interruptsAtImage \<lparr>issued = [], console = []\<rparr>
     = (Inl (Thrown ExitPromptError), \<lparr>issued = [], console = []\<rparr>)"
  by (simp add: run_defs lab_defs command_defs)

lemma lab_crash:
  "setupVM brokenWorld acceptDefaults \<lparr>issued = [], console = []\<rparr>
     = (Inl (Thrown (ExecError (listVmsCommand labVBoxManage))),
        \<lparr>issued = [systempropertiesCommand, listBridgedifsCommand labVBoxManage,
                   listVmsCommand labVBoxManage],
         console = [LogError ''Could not detect default VirtualBox VM folder. Falling back.'',
                    LogInfo ''No bridged adapters found. Using NAT.'']\<rparr>)"
  by (simp add: run_defs lab_defs command_defs)

lemma lab_crash_base:
  "setupVM_base brokenWorld acceptDefaults \<lparr>issued = [], console = []\<rparr>
     = (Inl (Thrown (ExecError (listVmsCommand labVBoxManage))),
        \<lparr>issued = [systempropertiesCommand, listVmsCommand labVBoxManage],
         console = [LogError ''Could not detect default VirtualBox VM folder. Falling back.'']\<rparr>)"
  by (simp add: run_defs lab_defs command_defs)

theorem cancellation_witness:
  "setupVM (labWorld oneAdapter) interruptsAtImage \<lparr>issued = [], console = []\<rparr>
     = (Inl (Thrown ExitPromptError), \<lparr>issued = [], console = []\<rparr>)
   \<and> main (labWorld oneAdapter) interruptsAtImage
     = (Handled, \<lparr>issued = [], console = [LogError ''Exiting'']\<rparr>)
   \<and> setupVM_base (labWorld oneAdapter) interruptsAtImage \<lparr>issued = [], console = []\<rparr>
     = (Inl (Thrown ExitPromptError), \<lparr>issued = [], console = []\<rparr>)
   \<and> main_base (labWorld oneAdapter) interruptsAtImage
     = (Handled, \<lparr>issued = [], console = [LogError ''Exiting'']\<rparr>)
   \<and> ExecError (listVmsCommand labVBoxManage) \<noteq> ExitPromptError
   \<and> fst (setupVM brokenWorld acceptDefaults \<lparr>issued = [], console = []\<rparr>)
     = Inl (Thrown (ExecError (listVmsCommand labVBoxManage)))
   \<and> fst (main brokenWorld acceptDefaults) = Crashed (ExecError (listVmsCommand labVBoxManage))
   \<and> fst (setupVM_base brokenWorld acceptDefaults \<lparr>issued = [], console = []\<rparr>)
     = Inl (Thrown (ExecError (listVmsCommand labVBoxManage)))
   \<and> fst (main_base brokenWorld acceptDefaults)
     = Crashed (ExecError (listVmsCommand labVBoxManage))"
proof -
  note cancel = cancellation_is_handled_quietly
    [where w = "labWorld oneAdapter" and op = interruptsAtImage
       and e = "\<lparr>issued = [], console = []\<rparr>" and e' = "\<lparr>issued = [], console = []\<rparr>"
       and err = TypeError and err' = TypeError]
  note crash = cancellation_is_handled_quietly
    [where w = brokenWorld and op = acceptDefaults
       and err = "ExecError (listVmsCommand labVBoxManage)"
       and err' = "ExecError (listVmsCommand labVBoxManage)"
       and e = "snd (setupVM brokenWorld acceptDefaults \<lparr>issued = [], console = []\<rparr>)"
       and e' = "snd (setupVM_base brokenWorld acceptDefaults \<lparr>issued = [], console = []\<rparr>)"]
  from cancel lab_cancel have
    a: "main (labWorld oneAdapter) interruptsAtImage
          = (Handled, \<lparr>issued = [], console = [LogError ''Exiting'']\<rparr>)"
    by simp
  from cancel lab_cancel_base have
    b: "main_base (labWorld oneAdapter) interruptsAtImage
          = (Handled, \<lparr>issued = [], console = [LogError ''Exiting'']\<rparr>)"
    by simp
  from crash lab_crash have
    c: "fst (main brokenWorld acceptDefaults)
          = Crashed (ExecError (listVmsCommand labVBoxManage))"
    by simp
  from crash lab_crash_base have
    d: "fst (main_base brokenWorld acceptDefaults)
          = Crashed (ExecError (listVmsCommand labVBoxManage))"
    by simp
  from a b c d lab_cancel lab_cancel_base lab_crash lab_crash_base show ?thesis by simp
qed

text \<open>
  C8 as stated fails: the operator interrupts the prompt that selects the image, and
  the process ends with exit code 0.
\<close>

theorem cancelled_run_exits_with_zero:
  "main (labWorld oneAdapter) interruptsAtImage
     = (Handled, \<lparr>issued = [], console = [LogError ''Exiting'']\<rparr>)
   \<and> exitCode (fst (main (labWorld oneAdapter) interruptsAtImage)) = 0"
  using lab_cancel by (simp add: main_def conclude_thrown)







lemma broken_folder:
  "getDefaultVMFolder brokenWorld \<lparr>issued = [], console = []\<rparr>
     = (Inr (Some (''C:'' @ backslash @ ''Users'' @ backslash @ ''operator'' @ backslash
                   @ ''VirtualBox VMs'')),
        \<lparr>issued = [systempropertiesCommand],
         console = [LogError ''Could not detect default VirtualBox VM folder. Falling back.'']\<rparr>)"
  by (simp add: run_defs lab_defs command_defs)











end
